theory Spec2Isabelle
  imports Main "HOL-Library.Word"
begin

section \<open>The Apptainer provider of the virtual kubelet\<close>

text \<open>
  The repository holds four Go files: the metrics provider, the provider with the pod
  lifecycle methods (\<^verbatim>\<open>CreatePod\<close>, \<^verbatim>\<open>UpdatePod\<close>, \<^verbatim>\<open>DeletePod\<close>,
  \<^verbatim>\<open>GetPod\<close>, \<^verbatim>\<open>GetPodStatus\<close>, \<^verbatim>\<open>GetPods\<close>), the node configuration
  (\<^verbatim>\<open>ConfigureNode\<close>, \<^verbatim>\<open>capacity\<close>, \<^verbatim>\<open>setupNodeCapacity\<close>) and \<^verbatim>\<open>main.go\<close>.
  Each Go function below is a HOL function of the same name. A method with a pointer
  receiver takes the provider as an argument; a method that could change it returns it
  again. A Go \<^verbatim>\<open>error\<close> result is an \<open>error option\<close> (\<open>None\<close> is \<^verbatim>\<open>nil\<close>), a
  pointer result is an option as well, and a panic is the left summand of a sum type.
  The \<^verbatim>\<open>context.Context\<close> argument is read by none of these functions and is left out.
\<close>

subsection \<open>Errors, panics and the process environment\<close>

text \<open>
  The provider package builds no error value of its own. \<open>NumError\<close> is the failure
  of \<^verbatim>\<open>strconv.Atoi\<close> in \<^verbatim>\<open>main.go\<close>; \<open>Conflict\<close> and \<open>NotFound\<close> are the error
  kinds the specification names for a duplicate create and for a query of an unknown pod.
\<close>

datatype error = Conflict | NotFound | NumError string

text \<open>
  The panics the modelled code can raise: \<^verbatim>\<open>resource.MustParse\<close> on a string that is
  no quantity, the dereference of a nil pointer (tagged with the variable that is nil),
  and the assignment to an entry of a nil map.
\<close>

datatype panic = InvalidQuantity string | NilPointer string | NilMapAssignment

type_synonym environ = "string \<rightharpoonup> string"

text \<open>\<^verbatim>\<open>os.Getenv\<close>: the value of the variable, the empty string when it is unset.\<close>

definition Getenv :: "environ \<Rightarrow> string \<Rightarrow> string" where
  "Getenv env key = (case env key of None \<Rightarrow> '''' | Some v \<Rightarrow> v)"

subsection \<open>The metrics provider\<close>

text \<open>\<^verbatim>\<open>type ApptaienrMetricsProvider struct {}\<close>: a struct with no field.\<close>

type_synonym ApptaienrMetricsProvider = unit

definition NewApptaienrMetricsProver :: "ApptaienrMetricsProvider option" where
  "NewApptaienrMetricsProver = Some ()"

subsection \<open>The provider\<close>

record ApptainerProvider =
  nodeName :: string
  operatingSystem :: string
  cpu :: string
  memory :: string
  pods :: string
  gpu :: string
  internalIP :: string
  daemonEndpointPort :: "32 word"
  metricsProvider :: "ApptaienrMetricsProvider option"

text \<open>\<^verbatim>\<open>&ApptainerProvider{}\<close>: every field has the zero value of its type.\<close>

definition zeroProvider :: ApptainerProvider where
  "zeroProvider =
     \<lparr>nodeName = '''', operatingSystem = '''', cpu = '''', memory = '''', pods = '''',
      gpu = '''', internalIP = '''', daemonEndpointPort = 0, metricsProvider = None\<rparr>"

definition setupNodeCapacity ::
  "environ \<Rightarrow> ApptainerProvider \<Rightarrow> ApptainerProvider \<times> error option" where
  "setupNodeCapacity env p =
     (let p1 = p\<lparr>cpu := ''64'', memory := ''512Gi'', pods := ''640''\<rparr>;
          cpuQuota = Getenv env ''APPTAINER_QUOTA_CPU'';
          p2 = (if cpuQuota \<noteq> '''' then p1\<lparr>cpu := cpuQuota\<rparr> else p1);
          memoryQuota = Getenv env ''APPTAINER_QUOTA_MEMORY'';
          p3 = (if memoryQuota \<noteq> '''' then p2\<lparr>memory := memoryQuota\<rparr> else p2);
          podsQuota = Getenv env ''APPTAINER_QUOTA_POD'';
          p4 = (if podsQuota \<noteq> '''' then p3\<lparr>pods := podsQuota\<rparr> else p3);
          gpuQuota = Getenv env ''APPTAINER_QUOTA_GPU'';
          p5 = (if gpuQuota \<noteq> '''' then p4\<lparr>gpu := gpuQuota\<rparr> else p4)
      in (p5, None))"

definition NewApptainerProvider ::
  "environ \<Rightarrow> string \<Rightarrow> string \<Rightarrow> string \<Rightarrow> 32 word
     \<Rightarrow> ApptainerProvider option \<times> error option" where
  "NewApptainerProvider env nodeName' operatingSystem' internalIP' daemonEndpointPort' =
     (let p = zeroProvider\<lparr>nodeName := nodeName', operatingSystem := operatingSystem',
                internalIP := internalIP', daemonEndpointPort := daemonEndpointPort'\<rparr>
      in case setupNodeCapacity env p of
           (p', Some err) \<Rightarrow> (None, Some err)
         | (p', None) \<Rightarrow> (Some (p'\<lparr>metricsProvider := NewApptaienrMetricsProver\<rparr>), None))"

subsection \<open>Pods and the lifecycle methods\<close>

text \<open>
  Of \<^verbatim>\<open>corev1.Pod\<close> the model keeps the identity (namespace and name) and the status
  with its phase; the lifecycle methods read no field of the pod at all.
\<close>

datatype PodPhase = PodPending | PodRunning | PodSucceeded | PodFailed | PodUnknown

record PodStatus =
  Phase :: PodPhase

record Pod =
  Pod_Namespace :: string
  Pod_Name :: string
  Pod_Status :: PodStatus

definition CreatePod ::
  "ApptainerProvider \<Rightarrow> Pod option \<Rightarrow> ApptainerProvider \<times> error option" where
  "CreatePod p pod = (p, None)"

definition UpdatePod ::
  "ApptainerProvider \<Rightarrow> Pod option \<Rightarrow> ApptainerProvider \<times> error option" where
  "UpdatePod p pod = (p, None)"

definition DeletePod ::
  "ApptainerProvider \<Rightarrow> Pod option \<Rightarrow> ApptainerProvider \<times> error option" where
  "DeletePod p pod = (p, None)"

definition GetPod ::
  "ApptainerProvider \<Rightarrow> string \<Rightarrow> string \<Rightarrow> Pod option \<times> error option" where
  "GetPod p namespace name = (None, None)"

definition GetPodStatus ::
  "ApptainerProvider \<Rightarrow> string \<Rightarrow> string \<Rightarrow> PodStatus option \<times> error option" where
  "GetPodStatus p namespace name = (None, None)"

text \<open>\<^verbatim>\<open>GetPods\<close> returns a nil slice, which is the empty list, and a nil error.\<close>

definition GetPods :: "ApptainerProvider \<Rightarrow> Pod option list \<times> error option" where
  "GetPods p = ([], None)"

subsection \<open>The node object\<close>

text \<open>
  Of \<^verbatim>\<open>v1.Node\<close> the model keeps the fields \<^verbatim>\<open>ConfigureNode\<close> writes. A
  \<^verbatim>\<open>v1.ResourceList\<close> is a Go map from resource names to quantities. The type \<open>'q\<close>
  of quantities and the type \<open>'t\<close> of time stamps belong to libraries outside the
  repository and stay abstract. The label map of the object metadata may be nil
  (\<open>None\<close>): Go panics on an assignment to an entry of a nil map.
\<close>

datatype ConditionStatus = ConditionTrue | ConditionFalse | ConditionUnknown

record 't NodeCondition =
  Type :: string
  Status :: ConditionStatus
  LastHeartbeatTime :: 't
  LastTransitionTime :: 't
  Reason :: string
  Message :: string

record NodeAddress =
  Address_Type :: string
  Address :: string

record DaemonEndpoint =
  Port :: "32 word"

record NodeDaemonEndpoints =
  KubeletEndpoint :: DaemonEndpoint

record NodeSystemInfo =
  KubeletVersion :: string
  OperatingSystem :: string

record ('q, 't) NodeStatus =
  Capacity :: "string \<rightharpoonup> 'q"
  Allocatable :: "string \<rightharpoonup> 'q"
  Conditions :: "'t NodeCondition list"
  Addresses :: "NodeAddress list"
  DaemonEndpoints :: NodeDaemonEndpoints
  NodeInfo :: NodeSystemInfo

record ObjectMeta =
  Name :: string
  Labels :: "(string \<rightharpoonup> string) option"

record ('q, 't) Node =
  Node_ObjectMeta :: ObjectMeta
  Node_Status :: "('q, 't) NodeStatus"

definition gpuResourceName :: string where
  "gpuResourceName = ''nvidia.com/gpu''"

text \<open>The resource names of \<^verbatim>\<open>k8s.io/api/core/v1\<close>.\<close>

definition ResourceCPU :: string where
  "ResourceCPU = ''cpu''"

definition ResourceMemory :: string where
  "ResourceMemory = ''memory''"

definition ResourcePods :: string where
  "ResourcePods = ''pods''"

text \<open>
  \<^verbatim>\<open>capacity\<close> parses the four strings with \<^verbatim>\<open>resource.MustParse\<close>, which returns a
  quantity or panics. The parser is a parameter, \<open>None\<close> standing for the panic. Go
  evaluates the three entries of the map literal in the order they are written, so the
  first string that is no quantity is the one the panic reports.
\<close>

definition capacity ::
  "(string \<Rightarrow> 'q option) \<Rightarrow> ApptainerProvider \<Rightarrow> panic + (string \<rightharpoonup> 'q)" where
  "capacity MustParse p =
     (case MustParse (cpu p) of
        None \<Rightarrow> Inl (InvalidQuantity (cpu p))
      | Some qc \<Rightarrow>
     (case MustParse (memory p) of
        None \<Rightarrow> Inl (InvalidQuantity (memory p))
      | Some qm \<Rightarrow>
     (case MustParse (pods p) of
        None \<Rightarrow> Inl (InvalidQuantity (pods p))
      | Some qp \<Rightarrow>
          (let resourceList = [ResourceCPU \<mapsto> qc, ResourceMemory \<mapsto> qm, ResourcePods \<mapsto> qp]
           in if gpu p \<noteq> ''''
              then (case MustParse (gpu p) of
                      None \<Rightarrow> Inl (InvalidQuantity (gpu p))
                    | Some qg \<Rightarrow> Inr (resourceList(gpuResourceName \<mapsto> qg)))
              else Inr resourceList))))"

text \<open>
  \<^verbatim>\<open>nodeConditions\<close> reads the clock ten times (\<^verbatim>\<open>metav1.Now()\<close>); \<open>now k\<close> is the
  k-th reading.
\<close>

definition nodeConditions :: "(nat \<Rightarrow> 't) \<Rightarrow> 't NodeCondition list" where
  "nodeConditions now =
     [\<lparr>Type = ''Ready'', Status = ConditionTrue,
       LastHeartbeatTime = now 0, LastTransitionTime = now 1,
       Reason = ''KubeletReady'', Message = ''kubelet is ready.''\<rparr>,
      \<lparr>Type = ''OutOfDisk'', Status = ConditionFalse,
       LastHeartbeatTime = now 2, LastTransitionTime = now 3,
       Reason = ''KubeletHasSufficientDisk'',
       Message = ''kubelet has sufficient disk space available''\<rparr>,
      \<lparr>Type = ''MemoryPressure'', Status = ConditionFalse,
       LastHeartbeatTime = now 4, LastTransitionTime = now 5,
       Reason = ''KubeletHasSufficientMemory'',
       Message = ''kubelet has sufficient memory available''\<rparr>,
      \<lparr>Type = ''DiskPressure'', Status = ConditionFalse,
       LastHeartbeatTime = now 6, LastTransitionTime = now 7,
       Reason = ''KubeletHasNoDiskPressure'',
       Message = ''kubelet has no disk pressure''\<rparr>,
      \<lparr>Type = ''NetworkUnavailable'', Status = ConditionFalse,
       LastHeartbeatTime = now 8, LastTransitionTime = now 9,
       Reason = ''RouteCreated'', Message = ''RouteController created a route''\<rparr>]"

definition nodeAddresses :: "ApptainerProvider \<Rightarrow> NodeAddress list" where
  "nodeAddresses p = [\<lparr>Address_Type = ''InternalIP'', Address = internalIP p\<rparr>]"

definition nodeDaemonEndpoints :: "ApptainerProvider \<Rightarrow> NodeDaemonEndpoints" where
  "nodeDaemonEndpoints p = \<lparr>KubeletEndpoint = \<lparr>Port = daemonEndpointPort p\<rparr>\<rparr>"

text \<open>
  \<^verbatim>\<open>strings.ToLower\<close> on the bytes of ASCII: the letters A to Z move to a to z, every
  other byte stays. (Go lowers the letters of all of Unicode; the operating system names
  the provider is run with are ASCII.)
\<close>

definition ToLower :: "string \<Rightarrow> string" where
  "ToLower s =
     map (\<lambda>c. if 65 \<le> (of_char c :: nat) \<and> (of_char c :: nat) \<le> 90
              then char_of ((of_char c :: nat) + 32) else c) s"

text \<open>
  \<^verbatim>\<open>ConfigureNode\<close>, statement by statement. The right-hand side of an assignment is
  evaluated before the pointer on its left is dereferenced, so a panic of the first
  \<^verbatim>\<open>capacity()\<close> comes before the panic of a nil \<^verbatim>\<open>node\<close>.
\<close>

definition ConfigureNode ::
  "(string \<Rightarrow> 'q option) \<Rightarrow> (nat \<Rightarrow> 't) \<Rightarrow> ApptainerProvider \<Rightarrow> ('q, 't) Node option
     \<Rightarrow> panic + ('q, 't) Node" where
  "ConfigureNode MustParse now p node =
     (case capacity MustParse p of
        Inl e \<Rightarrow> Inl e
      | Inr c1 \<Rightarrow>
     (case node of
        None \<Rightarrow> Inl (NilPointer ''node'')
      | Some n \<Rightarrow>
     (case capacity MustParse p of
        Inl e \<Rightarrow> Inl e
      | Inr c2 \<Rightarrow>
          (let st = (Node_Status n)
                 \<lparr>Capacity := c1,
                  Allocatable := c2,
                  Conditions := nodeConditions now,
                  Addresses := nodeAddresses p,
                  DaemonEndpoints := nodeDaemonEndpoints p,
                  NodeInfo := (NodeInfo (Node_Status n))\<lparr>OperatingSystem := operatingSystem p\<rparr>\<rparr>
           in case Labels (Node_ObjectMeta n) of
                None \<Rightarrow> Inl NilMapAssignment
              | Some l \<Rightarrow>
                  (let os = ToLower (operatingSystem p);
                       l' = l(''alpha.service-controller.kubernetes.io/exclude-balancer'' \<mapsto> ''true'',
                              ''node.kubernetes.io/exclude-from-external-load-balancers'' \<mapsto> ''true'',
                              ''beta.kubernetes.io/os'' \<mapsto> os,
                              ''kubernetes.io/os'' \<mapsto> os)
                   in Inr (n\<lparr>Node_ObjectMeta := (Node_ObjectMeta n)\<lparr>Labels := Some l'\<rparr>,
                             Node_Status := st\<rparr>))))))"

subsection \<open>The provider constructor of \<^verbatim>\<open>main.go\<close>\<close>

text \<open>
  The first function literal that \<^verbatim>\<open>run\<close> hands to \<^verbatim>\<open>nodeutil.NewNode\<close>. It returns
  the provider and an error; it also writes the package variable \<^verbatim>\<open>listenPort\<close> and,
  through \<^verbatim>\<open>ConfigureNode\<close>, the node of the configuration. \<^verbatim>\<open>strconv.Atoi\<close> is a
  parameter that returns an integer and an error, as in Go. \<^verbatim>\<open>int32(listenPort)\<close>
  keeps the low 32 bits. The call \<^verbatim>\<open>p.ConfigureNode\<close> stands before the error of
  \<^verbatim>\<open>NewApptainerProvider\<close> is looked at: on a nil \<^verbatim>\<open>p\<close> the read of \<^verbatim>\<open>p.cpu\<close> in
  \<^verbatim>\<open>capacity\<close> would panic.
\<close>

record ('q, 't) providerResult =
  result_provider :: "ApptainerProvider option"
  result_err :: "error option"
  result_node :: "('q, 't) Node option"
  result_listenPort :: int

definition run_newProvider ::
  "(string \<Rightarrow> 'q option) \<Rightarrow> (nat \<Rightarrow> 't) \<Rightarrow> environ \<Rightarrow> string \<Rightarrow> string \<Rightarrow> int
     \<Rightarrow> ('q, 't) Node option \<Rightarrow> panic + ('q, 't) providerResult" where
  "run_newProvider MustParse now env nodeName' operatingSystem' listenPort cfgNode =
     (case NewApptainerProvider env nodeName' operatingSystem'
             (Getenv env ''VKUBELET_POD_IP'') (word_of_int listenPort) of
        (None, err) \<Rightarrow> Inl (NilPointer ''p'')
      | (Some p, err) \<Rightarrow>
          (case ConfigureNode MustParse now p cfgNode of
             Inl e \<Rightarrow> Inl e
           | Inr n \<Rightarrow>
               Inr \<lparr>result_provider = Some p, result_err = err,
                    result_node = Some n, result_listenPort = listenPort\<rparr>))"

definition run_withProvider ::
  "(string \<Rightarrow> int \<times> error option) \<Rightarrow> (string \<Rightarrow> 'q option) \<Rightarrow> (nat \<Rightarrow> 't) \<Rightarrow> environ
     \<Rightarrow> string \<Rightarrow> string \<Rightarrow> int \<Rightarrow> ('q, 't) Node option
     \<Rightarrow> panic + ('q, 't) providerResult" where
  "run_withProvider Atoi MustParse now env nodeName' operatingSystem' listenPort cfgNode =
     (let port = Getenv env ''KUBELET_PORT''
      in if port \<noteq> ''''
         then (case Atoi port of
                 (listenPort', Some err) \<Rightarrow>
                   Inr \<lparr>result_provider = None, result_err = Some err,
                        result_node = cfgNode, result_listenPort = listenPort'\<rparr>
               | (listenPort', None) \<Rightarrow>
                   run_newProvider MustParse now env nodeName' operatingSystem' listenPort' cfgNode)
         else run_newProvider MustParse now env nodeName' operatingSystem' listenPort cfgNode)"

subsection \<open>Concrete inputs\<close>

text \<open>
  The provider \<^verbatim>\<open>main.go\<close> builds with its defaults (node name \<^verbatim>\<open>vk-apptainer\<close>,
  operating system \<^verbatim>\<open>Linux\<close>, port 10250) in an empty environment, a pod \<^verbatim>\<open>a\<close> in
  the namespace \<^verbatim>\<open>default\<close>, and a node whose label map is empty but not nil.
\<close>

definition provider0 :: ApptainerProvider where
  "provider0 =
     \<lparr>nodeName = ''vk-apptainer'', operatingSystem = ''Linux'', cpu = ''64'',
      memory = ''512Gi'', pods = ''640'', gpu = '''', internalIP = '''',
      daemonEndpointPort = 10250, metricsProvider = Some ()\<rparr>"

definition pod_a :: Pod where
  "pod_a = \<lparr>Pod_Namespace = ''default'', Pod_Name = ''a'', Pod_Status = \<lparr>Phase = PodPending\<rparr>\<rparr>"

definition node0 :: "(string, nat) Node" where
  "node0 =
     \<lparr>Node_ObjectMeta = \<lparr>Name = ''vk-apptainer'', Labels = Some Map.empty\<rparr>,
      Node_Status =
        \<lparr>Capacity = Map.empty, Allocatable = Map.empty, Conditions = [], Addresses = [],
         DaemonEndpoints = \<lparr>KubeletEndpoint = \<lparr>Port = 0\<rparr>\<rparr>,
         NodeInfo = \<lparr>KubeletVersion = '''', OperatingSystem = ''''\<rparr>\<rparr>\<rparr>"

text \<open>
  An environment that sets the CPU and the GPU quota, and one whose CPU quota is the
  string \<^verbatim>\<open>abc\<close>. In the first, quantities are written as the strings they are
  parsed from (the parser is \<open>Some\<close>). For the second, \<open>refuses_abc\<close> is a parser that
  refuses \<^verbatim>\<open>abc\<close>, as \<^verbatim>\<open>resource.MustParse\<close> does: the string has no digit.
\<close>

definition env_quota :: environ where
  "env_quota = [''APPTAINER_QUOTA_CPU'' \<mapsto> ''8'', ''APPTAINER_QUOTA_GPU'' \<mapsto> ''2'']"

definition env_abc :: environ where
  "env_abc = [''APPTAINER_QUOTA_CPU'' \<mapsto> ''abc'']"

definition refuses_abc :: "string \<Rightarrow> string option" where
  "refuses_abc s = (if s = ''abc'' then None else Some s)"

subsection \<open>Sequences of lifecycle calls\<close>

text \<open>
  The orchestrator drives the provider by calling \<^verbatim>\<open>CreatePod\<close>, \<^verbatim>\<open>UpdatePod\<close> and
  \<^verbatim>\<open>DeletePod\<close> in some order. \<open>apply_calls\<close> runs such a sequence from a provider
  state and returns the state it ends in.
\<close>

datatype lifecycle_call = Create "Pod option" | Update "Pod option" | Delete "Pod option"

definition apply_call :: "ApptainerProvider \<Rightarrow> lifecycle_call \<Rightarrow> ApptainerProvider" where
  "apply_call p c =
     (case c of
        Create pod \<Rightarrow> fst (CreatePod p pod)
      | Update pod \<Rightarrow> fst (UpdatePod p pod)
      | Delete pod \<Rightarrow> fst (DeletePod p pod))"

definition apply_calls :: "ApptainerProvider \<Rightarrow> lifecycle_call list \<Rightarrow> ApptainerProvider" where
  "apply_calls p cs = foldl apply_call p cs"

section \<open>Facts about the constructor and the capacity list\<close>

lemma setupNodeCapacity_err: "snd (setupNodeCapacity env p) = None"
  by (simp add: setupNodeCapacity_def Let_def)

lemma setupNodeCapacity_fields:
  "cpu (fst (setupNodeCapacity env p)) =
     (if Getenv env ''APPTAINER_QUOTA_CPU'' = '''' then ''64''
      else Getenv env ''APPTAINER_QUOTA_CPU'')"
  "memory (fst (setupNodeCapacity env p)) =
     (if Getenv env ''APPTAINER_QUOTA_MEMORY'' = '''' then ''512Gi''
      else Getenv env ''APPTAINER_QUOTA_MEMORY'')"
  "pods (fst (setupNodeCapacity env p)) =
     (if Getenv env ''APPTAINER_QUOTA_POD'' = '''' then ''640''
      else Getenv env ''APPTAINER_QUOTA_POD'')"
  "gpu (fst (setupNodeCapacity env p)) =
     (if Getenv env ''APPTAINER_QUOTA_GPU'' = '''' then gpu p
      else Getenv env ''APPTAINER_QUOTA_GPU'')"
  by (simp_all add: setupNodeCapacity_def Let_def)

lemma NewApptainerProvider_eq:
  "NewApptainerProvider env n os ip port =
     (Some ((fst (setupNodeCapacity env
               (zeroProvider\<lparr>nodeName := n, operatingSystem := os, internalIP := ip,
                  daemonEndpointPort := port\<rparr>)))
            \<lparr>metricsProvider := NewApptaienrMetricsProver\<rparr>), None)"
  using setupNodeCapacity_err
    [of env "zeroProvider\<lparr>nodeName := n, operatingSystem := os, internalIP := ip,
               daemonEndpointPort := port\<rparr>"]
  by (auto simp add: NewApptainerProvider_def Let_def split: prod.splits option.splits)

lemma NewApptainerProvider_fields:
  assumes "NewApptainerProvider env n os ip port = (Some p, e)"
  shows "cpu p = (if Getenv env ''APPTAINER_QUOTA_CPU'' = '''' then ''64''
                  else Getenv env ''APPTAINER_QUOTA_CPU'')"
    and "memory p = (if Getenv env ''APPTAINER_QUOTA_MEMORY'' = '''' then ''512Gi''
                     else Getenv env ''APPTAINER_QUOTA_MEMORY'')"
    and "pods p = (if Getenv env ''APPTAINER_QUOTA_POD'' = '''' then ''640''
                   else Getenv env ''APPTAINER_QUOTA_POD'')"
    and "gpu p = Getenv env ''APPTAINER_QUOTA_GPU''"
  using assms unfolding NewApptainerProvider_eq
  by (auto simp add: setupNodeCapacity_fields zeroProvider_def)

text \<open>
  \<^verbatim>\<open>capacity\<close> returns a list exactly when every string it parses is a quantity; the
  GPU string is parsed only when it is not empty.
\<close>

lemma capacity_returns_iff:
  "(\<exists>rl. capacity MustParse p = Inr rl) =
     (MustParse (cpu p) \<noteq> None \<and> MustParse (memory p) \<noteq> None \<and>
      MustParse (pods p) \<noteq> None \<and> (gpu p = '''' \<or> MustParse (gpu p) \<noteq> None))"
  by (auto simp add: capacity_def Let_def split: option.splits)

lemma capacity_lookup:
  assumes "capacity MustParse p = Inr rl"
  shows "rl ''cpu'' = MustParse (cpu p)"
    and "rl ''memory'' = MustParse (memory p)"
    and "rl ''pods'' = MustParse (pods p)"
    and "rl ''nvidia.com/gpu'' = (if gpu p = '''' then None else MustParse (gpu p))"
    and "dom rl = {''cpu'', ''memory'', ''pods''} \<union>
                  (if gpu p = '''' then {} else {''nvidia.com/gpu''})"
  using assms
  by (auto simp add: capacity_def Let_def ResourceCPU_def ResourceMemory_def ResourcePods_def
      gpuResourceName_def split: option.splits if_splits)

lemma capacity_not_NilPointer: "capacity MustParse p \<noteq> Inl (NilPointer v)"
  by (simp add: capacity_def Let_def split: option.splits)

text \<open>
  \<^verbatim>\<open>ConfigureNode\<close> returns exactly when \<^verbatim>\<open>capacity\<close> does, the node is not nil and
  its label map is not nil. Its panics never come from the provider pointer.
\<close>

lemma ConfigureNode_returns_iff:
  "(\<exists>node'. ConfigureNode MustParse now p node = Inr node') =
     ((\<exists>rl. capacity MustParse p = Inr rl) \<and>
      (\<exists>n l. node = Some n \<and> Labels (Node_ObjectMeta n) = Some l))"
  by (auto simp add: ConfigureNode_def Let_def split: sum.splits option.splits)

lemma ConfigureNode_not_nil_p:
  "ConfigureNode MustParse now p node \<noteq> Inl (NilPointer ''p'')"
  using capacity_not_NilPointer [of MustParse p "''p''"]
  by (auto simp add: ConfigureNode_def Let_def split: option.splits sum.splits)

text \<open>No sequence of lifecycle calls changes the provider.\<close>

lemma apply_call_id: "apply_call p c = p"
  by (cases c) (simp_all add: apply_call_def CreatePod_def UpdatePod_def DeletePod_def)

lemma apply_calls_id: "apply_calls p cs = p"
  unfolding apply_calls_def
  by (induction cs arbitrary: p) (simp_all add: apply_call_id)

section \<open>Creating a pod\<close>

text \<open>
  C1, as the code has it. \<^verbatim>\<open>CreatePod\<close> returns a nil error for every provider and
  every pod and leaves the provider as it was. The provider keeps no record of the pods
  it was given, so a second \<^verbatim>\<open>CreatePod\<close> of the same pod, run right after the first,
  returns a nil error as well: no call returns \<open>Conflict\<close>, and there is no record that
  a call could overwrite.
\<close>

theorem CreatePod_never_Conflict:
  "CreatePod p pod = (p, None) \<and>
   CreatePod (fst (CreatePod p pod)) pod = (p, None) \<and>
   snd (CreatePod (fst (CreatePod p pod)) pod) \<noteq> Some Conflict"
  by (simp add: CreatePod_def)

text \<open>
  The claim as the specification words it asks for \<open>Conflict\<close> when the identity was
  created before and is not terminated. The pod \<^verbatim>\<open>default/a\<close> is created and accepted,
  nothing deletes it, and the second create is accepted too.
\<close>

theorem CreatePod_twice_counterexample:
  "snd (CreatePod provider0 (Some pod_a)) = None \<and>
   snd (CreatePod (fst (CreatePod provider0 (Some pod_a))) (Some pod_a)) = None \<and>
   snd (CreatePod (fst (CreatePod provider0 (Some pod_a))) (Some pod_a)) \<noteq> Some Conflict"
  by (simp add: CreatePod_def)

section \<open>Deleting a pod\<close>

text \<open>
  C2. \<^verbatim>\<open>DeletePod\<close> is idempotent. For every provider and every pod, known to the
  provider or not, it returns a nil error and leaves the provider as it was; a second
  \<^verbatim>\<open>DeletePod\<close> of the same pod, run on the provider the first one left, returns a nil
  error again and changes nothing. No call returns an error \<open>e\<close>.
\<close>

theorem DeletePod_idempotent:
  "DeletePod p pod = (p, None) \<and>
   DeletePod (fst (DeletePod p pod)) pod = (fst (DeletePod p pod), None) \<and>
   snd (DeletePod (fst (DeletePod p pod)) pod) \<noteq> Some e"
  by (simp add: DeletePod_def)

section \<open>Querying a pod\<close>

text \<open>
  C6, as the code has it. \<^verbatim>\<open>CreatePod\<close> accepts the pod (nil error). After it, and
  after any further sequence of lifecycle calls, the provider is the one it was and
  \<^verbatim>\<open>GetPodStatus\<close> returns a nil status with a nil error for every namespace and name;
  in particular it never returns a status whose phase is \<open>PodRunning\<close>.
\<close>

theorem GetPodStatus_after_CreatePod:
  "snd (CreatePod p pod) = None \<and>
   apply_calls (fst (CreatePod p pod)) cs = p \<and>
   GetPodStatus (apply_calls (fst (CreatePod p pod)) cs) namespace name = (None, None) \<and>
   fst (GetPodStatus (apply_calls (fst (CreatePod p pod)) cs) namespace name)
     \<noteq> Some \<lparr>Phase = PodRunning\<rparr>"
  by (simp add: apply_calls_id CreatePod_def GetPodStatus_def)

text \<open>
  The scenario of the specification: the pod \<^verbatim>\<open>default/a\<close> is created and accepted, and
  the status query that follows reports no status at all, so not a running one.
\<close>

theorem GetPodStatus_not_Running_counterexample:
  "snd (CreatePod provider0 (Some pod_a)) = None \<and>
   fst (GetPodStatus (fst (CreatePod provider0 (Some pod_a))) ''default'' ''a'') = None \<and>
   fst (GetPodStatus (fst (CreatePod provider0 (Some pod_a))) ''default'' ''a'')
     \<noteq> Some \<lparr>Phase = PodRunning\<rparr>"
  by (simp add: CreatePod_def GetPodStatus_def)

text \<open>
  C7, as the code has it. For every provider, namespace and name, created before or
  not, \<^verbatim>\<open>GetPod\<close> returns a nil pod with a nil error and \<^verbatim>\<open>GetPodStatus\<close> a nil
  status with a nil error. Neither returns \<open>NotFound\<close>.
\<close>

theorem GetPod_never_NotFound:
  "GetPod p namespace name = (None, None) \<and>
   GetPodStatus p namespace name = (None, None) \<and>
   snd (GetPod p namespace name) \<noteq> Some NotFound \<and>
   snd (GetPodStatus p namespace name) \<noteq> Some NotFound"
  by (simp add: GetPod_def GetPodStatus_def)

text \<open>
  No call has created the pod \<^verbatim>\<open>default/never-created\<close>; both queries return a nil
  error for it.
\<close>

theorem GetPod_unknown_counterexample:
  "GetPod provider0 ''default'' ''never-created'' = (None, None) \<and>
   GetPodStatus provider0 ''default'' ''never-created'' = (None, None) \<and>
   snd (GetPod provider0 ''default'' ''never-created'') \<noteq> Some NotFound \<and>
   snd (GetPodStatus provider0 ''default'' ''never-created'') \<noteq> Some NotFound"
  by (simp add: GetPod_def GetPodStatus_def)

section \<open>The node capacity\<close>

text \<open>
  C8, as the code has it. Let \<^verbatim>\<open>NewApptainerProvider\<close> have returned the provider
  \<open>p\<close> with a nil error, in any environment, and let \<^verbatim>\<open>capacity\<close> return the list
  \<open>rl\<close> (it panics instead when \<^verbatim>\<open>resource.MustParse\<close> refuses one of the strings).
  Then \<open>rl\<close> maps \<^verbatim>\<open>cpu\<close>, \<^verbatim>\<open>memory\<close> and \<^verbatim>\<open>pods\<close> to the quantities parsed from
  \<^verbatim>\<open>64\<close>, \<^verbatim>\<open>512Gi\<close> and \<^verbatim>\<open>640\<close>, or from the value of \<^verbatim>\<open>APPTAINER_QUOTA_CPU\<close>,
  \<^verbatim>\<open>APPTAINER_QUOTA_MEMORY\<close> and \<^verbatim>\<open>APPTAINER_QUOTA_POD\<close> where that value is not
  empty; and \<open>rl\<close> has the key \<^verbatim>\<open>nvidia.com/gpu\<close> if and only if
  \<^verbatim>\<open>APPTAINER_QUOTA_GPU\<close> is not empty, mapped to the quantity parsed from its value.
\<close>

theorem NewApptainerProvider_capacity:
  assumes "NewApptainerProvider env n os ip port = (Some p, None)"
    and "capacity MustParse p = Inr rl"
  shows "rl ''cpu'' = MustParse (if Getenv env ''APPTAINER_QUOTA_CPU'' = '''' then ''64''
                               else Getenv env ''APPTAINER_QUOTA_CPU'') \<and>
         rl ''memory'' = MustParse (if Getenv env ''APPTAINER_QUOTA_MEMORY'' = '''' then ''512Gi''
                                  else Getenv env ''APPTAINER_QUOTA_MEMORY'') \<and>
         rl ''pods'' = MustParse (if Getenv env ''APPTAINER_QUOTA_POD'' = '''' then ''640''
                                else Getenv env ''APPTAINER_QUOTA_POD'') \<and>
         rl ''cpu'' \<noteq> None \<and> rl ''memory'' \<noteq> None \<and> rl ''pods'' \<noteq> None \<and>
         (''nvidia.com/gpu'' \<in> dom rl) = (Getenv env ''APPTAINER_QUOTA_GPU'' \<noteq> '''') \<and>
         rl ''nvidia.com/gpu'' = (if Getenv env ''APPTAINER_QUOTA_GPU'' = '''' then None
                                 else MustParse (Getenv env ''APPTAINER_QUOTA_GPU''))"
proof -
  note f = NewApptainerProvider_fields [OF assms(1)]
  note l = capacity_lookup [OF assms(2)]
  have d: "''cpu'' \<in> dom rl" "''memory'' \<in> dom rl" "''pods'' \<in> dom rl"
    by (simp_all add: l(5))
  have g: "(''nvidia.com/gpu'' \<in> dom rl) = (Getenv env ''APPTAINER_QUOTA_GPU'' \<noteq> '''')"
    by (simp add: l(5) f(4))
  show ?thesis
    using d g l(1-4) f by (simp add: domIff)
qed

text \<open>
  With the CPU quota 8 and the GPU quota 2 set and the other two variables unset, the
  constructor succeeds, the list is returned, and it holds 8, 512Gi, 640 and 2.
\<close>

theorem NewApptainerProvider_capacity_witness:
  "\<exists>p rl. NewApptainerProvider env_quota ''vk-apptainer'' ''Linux'' '''' 10250 = (Some p, None) \<and>
     capacity Some p = Inr rl \<and>
     rl ''cpu'' = Some ''8'' \<and> rl ''memory'' = Some ''512Gi'' \<and> rl ''pods'' = Some ''640'' \<and>
     rl ''nvidia.com/gpu'' = Some ''2''"
proof -
  obtain p where
    new: "NewApptainerProvider env_quota ''vk-apptainer'' ''Linux'' '''' 10250 = (Some p, None)"
    by (simp add: NewApptainerProvider_eq)
  have "\<exists>rl. capacity Some p = Inr rl"
    by (simp add: capacity_returns_iff)
  then obtain rl where cap: "capacity Some p = Inr rl" ..
  show ?thesis
    using NewApptainerProvider_capacity [OF new cap] new cap
    by (simp add: env_quota_def Getenv_def)
qed

text \<open>
  The claim as it is worded speaks of every environment. With
  \<^verbatim>\<open>APPTAINER_QUOTA_CPU=abc\<close> the constructor still succeeds, and \<^verbatim>\<open>capacity\<close> then
  panics on the string \<^verbatim>\<open>abc\<close>: there is no capacity list that could map \<^verbatim>\<open>cpu\<close>
  to that value.
\<close>

theorem capacity_panics_counterexample:
  "(case NewApptainerProvider env_abc ''vk-apptainer'' ''Linux'' '''' 10250 of
      (Some p, None) \<Rightarrow> capacity refuses_abc p = Inl (InvalidQuantity ''abc'')
    | _ \<Rightarrow> False)"
  by (simp add: NewApptainerProvider_def setupNodeCapacity_def zeroProvider_def Getenv_def
      env_abc_def capacity_def refuses_abc_def NewApptaienrMetricsProver_def)

text \<open>
  C9. When \<^verbatim>\<open>ConfigureNode\<close> returns, the allocatable resources of the node equal its
  capacity, and both are the list \<^verbatim>\<open>capacity\<close> computes for the provider.
\<close>

theorem ConfigureNode_Allocatable_eq_Capacity:
  assumes "ConfigureNode MustParse now p node = Inr node'"
  shows "Allocatable (Node_Status node') = Capacity (Node_Status node') \<and>
         capacity MustParse p = Inr (Capacity (Node_Status node'))"
  using assms
  by (auto simp add: ConfigureNode_def Let_def split: sum.splits option.splits)

text \<open>
  The default provider configures a node with an empty label map: the call returns, and
  both lists hold the default 64 for \<^verbatim>\<open>cpu\<close>.
\<close>

theorem ConfigureNode_Allocatable_eq_Capacity_witness:
  "\<exists>node'. ConfigureNode Some (\<lambda>k. k) provider0 (Some node0) = Inr node' \<and>
     Allocatable (Node_Status node') = Capacity (Node_Status node') \<and>
     Allocatable (Node_Status node') ''cpu'' = Some ''64''"
proof -
  have "\<exists>node'. ConfigureNode Some (\<lambda>k. k) provider0 (Some node0) = Inr node'"
    by (simp add: ConfigureNode_returns_iff capacity_returns_iff node0_def)
  then obtain node' where
    c: "ConfigureNode Some (\<lambda>k. k) provider0 (Some node0) = Inr node'" ..
  have "capacity Some provider0 = Inr (Capacity (Node_Status node'))"
    using ConfigureNode_Allocatable_eq_Capacity [OF c] by simp
  then have "Capacity (Node_Status node') ''cpu'' = Some ''64''"
    by (simp add: capacity_lookup(1) provider0_def)
  then show ?thesis
    using ConfigureNode_Allocatable_eq_Capacity [OF c] c by simp
qed

section \<open>The constructor never fails\<close>

text \<open>
  C10. In every environment and for all arguments \<^verbatim>\<open>NewApptainerProvider\<close> returns a
  provider that is not nil together with a nil error, because \<^verbatim>\<open>setupNodeCapacity\<close>
  returns a nil error for every provider it is given. So the function literal of
  \<^verbatim>\<open>run\<close>, which calls \<^verbatim>\<open>p.ConfigureNode\<close> before it looks at the error, never panics
  on a nil provider.
\<close>

theorem NewApptainerProvider_never_nil:
  "(\<exists>p. NewApptainerProvider env n os ip port = (Some p, None)) \<and>
   snd (setupNodeCapacity env p0) = None \<and>
   run_withProvider Atoi MustParse now env n os lp cfgNode \<noteq> Inl (NilPointer ''p'')"
proof -
  have new: "\<exists>p. NewApptainerProvider env n' os' ip' port' = (Some p, None)"
    for n' os' ip' port'
    by (simp add: NewApptainerProvider_eq)
  have inner: "run_newProvider MustParse now env n os l cfgNode \<noteq> Inl (NilPointer ''p'')"
    for l
  proof -
    from new obtain p where
      "NewApptainerProvider env n os (Getenv env ''VKUBELET_POD_IP'') (word_of_int l)
         = (Some p, None)"
      by blast
    then show ?thesis
      using ConfigureNode_not_nil_p [of MustParse now p cfgNode]
      by (auto simp add: run_newProvider_def split: sum.splits)
  qed
  have "run_withProvider Atoi MustParse now env n os lp cfgNode \<noteq> Inl (NilPointer ''p'')"
    using inner by (simp add: run_withProvider_def Let_def split: prod.splits option.splits)
  with new setupNodeCapacity_err show ?thesis by blast
qed

end
